theory Spec2Isabelle
  imports Main
begin

section \<open>Python values\<close>

text \<open>
  The client handles values of unknown shape: whatever the inbound stream delivers, and
  whatever the parsers return. A value is one of Python's builtin data values, a
  structured object, or an exception instance.

  Strings are lists of 8-bit characters (code points below 256). A float is kept as the
  text of the literal it was read from: the client never computes with floats, it only
  tests them for truth. A structured object is an instance of a pydantic model, as the
  objects of the protocol library and of this client are: it carries the text \<open>str()\<close>
  gives for it and its fields, which are its attributes; iterating it gives the pairs of
  field name and value; it is true, and has no length, no subscript and no method
  \<open>get\<close>.
\<close>

datatype pyval =
    PNone
  | PBool bool
  | PInt int
  | PFloat string
  | PStr string
  | PBytes string
  | PList "pyval list"
  | PTuple "pyval list"
  | PSet "pyval list"
  | PDict "(pyval \<times> pyval) list"
  | PObj string "(string \<times> pyval) list"
  | PExc string

text \<open>Exceptions the modelled code can raise. \<open>Reraised m\<close> is \<open>raise response\<close>
  for a received exception object with message \<open>m\<close>.\<close>

datatype exn =
    JSONDecodeError
  | RecursionError
  | SyntaxError
  | ValueError
  | AttributeError
  | TypeError
  | KeyError
  | IndexError
  | RuntimeError string
  | Reraised string

abbreviation sq :: char where "sq \<equiv> CHR 0x27"
abbreviation dq :: char where "dq \<equiv> CHR 0x22"
abbreviation bslash :: char where "bslash \<equiv> CHR 0x5C"
abbreviation newline :: char where "newline \<equiv> CHR 0x0A"

definition is_digit :: "char \<Rightarrow> bool" where
  "is_digit c = (c \<in> set ''0123456789'')"

subsection \<open>Decimal text of integers\<close>

definition digit_char :: "nat \<Rightarrow> char" where
  "digit_char d = char_of (of_char (CHR ''0'') + d)"

fun str_nat :: "nat \<Rightarrow> string" where
  "str_nat n = (if n < 10 then [digit_char n] else str_nat (n div 10) @ [digit_char (n mod 10)])"

declare str_nat.simps [simp del]

text \<open>\<open>str(i)\<close> for an integer.\<close>

definition str_int :: "int \<Rightarrow> string" where
  "str_int i = (if i < 0 then CHR ''-'' # str_nat (nat (- i)) else str_nat (nat i))"

text \<open>The number a decimal text denotes (\<open>int(s)\<close> on an optional sign and digits).\<close>

definition digit_val :: "char \<Rightarrow> nat" where
  "digit_val c = of_char c - of_char (CHR ''0'')"

definition nat_of_digits :: "string \<Rightarrow> nat" where
  "nat_of_digits s = foldl (\<lambda>a c. 10 * a + digit_val c) 0 s"

definition int_of_str :: "string \<Rightarrow> int" where
  "int_of_str s = (case s of [] \<Rightarrow> 0
     | c # cs \<Rightarrow> if c = CHR ''-'' then - int (nat_of_digits cs) else int (nat_of_digits s))"

subsection \<open>Truth, length, items and attributes\<close>

text \<open>
  A float literal is a mantissa, with an optional fraction, and an optional decimal
  exponent. The float it denotes is zero when the mantissa is zero, and when the value is
  at most \<open>2^-1075\<close>, half of the least positive float, which rounds to zero
  (\<open>nan\<close> and \<open>inf\<close> are no digits and are not zero).
\<close>

definition float_exponent :: "string \<Rightarrow> int" where
  "float_exponent e =
     (case e of
        [] \<Rightarrow> 0
      | c # ds \<Rightarrow>
          if c = CHR ''-'' then - int (nat_of_digits ds)
          else if c = CHR ''+'' then int (nat_of_digits ds)
          else int (nat_of_digits e))"

definition float_zero :: "string \<Rightarrow> bool" where
  "float_zero l =
     (let u = (case l of c # cs \<Rightarrow> if c = CHR ''-'' then cs else l | [] \<Rightarrow> l);
          mant = takeWhile (\<lambda>c. c \<noteq> CHR ''e'' \<and> c \<noteq> CHR ''E'') u;
          ip = takeWhile (\<lambda>c. c \<noteq> CHR ''.'') mant;
          fp = drop (Suc (length ip)) mant;
          m = nat_of_digits (ip @ fp);
          e10 = float_exponent (drop (Suc (length mant)) u) - int (length fp)
      in ip @ fp \<noteq> [] \<and> list_all is_digit (ip @ fp)
         \<and> (m = 0 \<or> (e10 < 0 \<and> m * 2 ^ 1075 \<le> 10 ^ nat (- e10))))"

text \<open>\<open>bool(v)\<close>, the test of \<open>if v:\<close> and \<open>not v\<close>.\<close>

fun truthy :: "pyval \<Rightarrow> bool" where
  "truthy PNone = False"
| "truthy (PBool b) = b"
| "truthy (PInt i) = (i \<noteq> 0)"
| "truthy (PFloat l) = (\<not> float_zero l)"
| "truthy (PStr s) = (s \<noteq> [])"
| "truthy (PBytes s) = (s \<noteq> [])"
| "truthy (PList xs) = (xs \<noteq> [])"
| "truthy (PTuple xs) = (xs \<noteq> [])"
| "truthy (PSet xs) = (xs \<noteq> [])"
| "truthy (PDict kvs) = (kvs \<noteq> [])"
| "truthy (PObj s attrs) = True"
| "truthy (PExc m) = True"

fun is_str :: "pyval \<Rightarrow> bool" where
  "is_str (PStr s) = True"
| "is_str v = False"

fun is_dict :: "pyval \<Rightarrow> bool" where
  "is_dict (PDict kvs) = True"
| "is_dict v = False"

fun is_list :: "pyval \<Rightarrow> bool" where
  "is_list (PList xs) = True"
| "is_list v = False"

text \<open>\<open>len(v)\<close>: defined on the sized builtins, a TypeError elsewhere.\<close>

fun py_len :: "pyval \<Rightarrow> exn + nat" where
  "py_len (PStr s) = Inr (length s)"
| "py_len (PBytes s) = Inr (length s)"
| "py_len (PList xs) = Inr (length xs)"
| "py_len (PTuple xs) = Inr (length xs)"
| "py_len (PSet xs) = Inr (length xs)"
| "py_len (PDict kvs) = Inr (length kvs)"
| "py_len v = Inl TypeError"

text \<open>Dictionary lookup with a string key: a string key is equal to string keys only.\<close>

definition dict_lookup :: "(pyval \<times> pyval) list \<Rightarrow> string \<Rightarrow> pyval option" where
  "dict_lookup kvs k = map_of kvs (PStr k)"

text \<open>The keys Python treats as equal to the integer 0.\<close>

fun is_zero_key :: "pyval \<Rightarrow> bool" where
  "is_zero_key (PInt i) = (i = 0)"
| "is_zero_key (PBool b) = (\<not> b)"
| "is_zero_key (PFloat l) = float_zero l"
| "is_zero_key v = False"

text \<open>\<open>v[0]\<close>.\<close>

fun py_item0 :: "pyval \<Rightarrow> exn + pyval" where
  "py_item0 (PList xs) = (case xs of [] \<Rightarrow> Inl IndexError | x # _ \<Rightarrow> Inr x)"
| "py_item0 (PTuple xs) = (case xs of [] \<Rightarrow> Inl IndexError | x # _ \<Rightarrow> Inr x)"
| "py_item0 (PStr s) = (case s of [] \<Rightarrow> Inl IndexError | c # _ \<Rightarrow> Inr (PStr [c]))"
| "py_item0 (PBytes s) = (case s of [] \<Rightarrow> Inl IndexError | c # _ \<Rightarrow> Inr (PInt (int (of_char c))))"
| "py_item0 (PDict kvs) =
     (case filter (\<lambda>kv. is_zero_key (fst kv)) kvs of [] \<Rightarrow> Inl KeyError | kv # _ \<Rightarrow> Inr (snd kv))"
| "py_item0 v = Inl TypeError"

text \<open>\<open>hasattr(v, name)\<close> and \<open>getattr(v, name)\<close> for the names the client asks for
  (\<open>result\<close>, \<open>content\<close>, \<open>text\<close>): no builtin value has them, an object has the
  attributes it carries.\<close>

fun py_hasattr :: "pyval \<Rightarrow> string \<Rightarrow> bool" where
  "py_hasattr (PObj s attrs) name = (map_of attrs name \<noteq> None)"
| "py_hasattr v name = False"

fun py_getattr :: "pyval \<Rightarrow> string \<Rightarrow> exn + pyval" where
  "py_getattr (PObj s attrs) name =
     (case map_of attrs name of None \<Rightarrow> Inl AttributeError | Some v \<Rightarrow> Inr v)"
| "py_getattr v name = Inl AttributeError"

section \<open>The session: request identifiers\<close>

text \<open>
  What the inbound stream delivers: a string, a structured object (with the text
  \<open>str()\<close> gives for it and its attributes) or an exception instance (with its
  message).
\<close>

datatype wire = WireStr string | WireObj string "(string \<times> pyval) list" | WireExc string

fun wire_val :: "wire \<Rightarrow> pyval" where
  "wire_val (WireStr s) = PStr s"
| "wire_val (WireObj s attrs) = PObj s attrs"
| "wire_val (WireExc m) = PExc m"

text \<open>\<open>str(response)\<close>.\<close>

fun wire_str :: "wire \<Rightarrow> string" where
  "wire_str (WireStr s) = s"
| "wire_str (WireObj s attrs) = s"
| "wire_str (WireExc m) = m"

text \<open>A message written to the outbound stream: its id (none for a notification) and
  its method.\<close>

type_synonym sent = "string option \<times> string"

text \<open>
  The fields of \<open>Client\<close> that the modelled methods read or write. \<open>streams\<close> is
  \<open>None\<close> or the pair of streams: the values the read stream will deliver, in order, and
  the messages written so far.
\<close>

record client =
  streams :: "(wire list \<times> sent list) option"
  request_id :: int
  initialized :: bool
  available_tools :: pyval

text \<open>\<open>Client.__init__\<close>.\<close>

definition new_client :: client where
  "new_client = \<lparr> streams = None, request_id = 0, initialized = False, available_tools = PList [] \<rparr>"

text \<open>\<open>Client._get_next_request_id\<close>: increments the counter, returns its decimal text.\<close>

definition get_next_request_id :: "client \<Rightarrow> string \<times> client" where
  "get_next_request_id c =
     (let c' = c\<lparr>request_id := request_id c + 1\<rparr> in (str_int (request_id c'), c'))"

text \<open>Calling it N times in a row, collecting what it returns.\<close>

fun next_ids :: "nat \<Rightarrow> client \<Rightarrow> string list \<times> client" where
  "next_ids 0 c = ([], c)"
| "next_ids (Suc n) c =
     (let (r, c') = get_next_request_id c; (rs, c'') = next_ids n c' in (r # rs, c''))"

section \<open>The canonical result model\<close>

text \<open>\<open>TextContent\<close> has the fields \<open>type\<close> and \<open>text\<close>; a content item is a
  \<open>TextContent\<close> or a plain dictionary with string keys.\<close>

datatype content_item =
    TextContent string string
  | DictItem "(string \<times> pyval) list"

record ToolCallResult =
  content :: "content_item list"
  isError :: bool
  message :: "string option"

definition list_item0 :: "'a list \<Rightarrow> exn + 'a" where
  "list_item0 xs = (case xs of [] \<Rightarrow> Inl IndexError | x # _ \<Rightarrow> Inr x)"

definition dict_getitem :: "(string \<times> pyval) list \<Rightarrow> string \<Rightarrow> exn + pyval" where
  "dict_getitem d k = (case map_of d k of None \<Rightarrow> Inl KeyError | Some v \<Rightarrow> Inr v)"

text \<open>\<open>ToolCallResult.get_text_value\<close>. Returning nothing is returning \<open>None\<close>.\<close>

definition get_text_value :: "ToolCallResult \<Rightarrow> exn + pyval" where
  "get_text_value r =
     (if content r = [] \<or> length (content r) = 0 then Inr PNone
      else case list_item0 (content r) of
          Inl e \<Rightarrow> Inl e
        | Inr first_item \<Rightarrow>
            (case first_item of
               TextContent ty t \<Rightarrow> Inr (PStr t)
             | DictItem d \<Rightarrow>
                 if map_of d ''text'' \<noteq> None then dict_getitem d ''text'' else Inr PNone))"

section \<open>Strings and regular expressions\<close>

text \<open>\<open>s.startswith(p)\<close>.\<close>

definition startswith :: "string \<Rightarrow> string \<Rightarrow> bool" where
  "startswith s p = (take (length p) s = p)"

text \<open>\<open>p in s\<close> for two strings.\<close>

fun is_substring :: "string \<Rightarrow> string \<Rightarrow> bool" where
  "is_substring p [] = (p = [])"
| "is_substring p (c # cs) = (startswith (c # cs) p \<or> is_substring p cs)"

text \<open>\<open>s.replace(old, new)\<close>: the occurrences of \<open>old\<close> are replaced from left to
  right, without overlap.\<close>

function replace_ne :: "string \<Rightarrow> string \<Rightarrow> string \<Rightarrow> string" where
  "replace_ne old new [] = []"
| "replace_ne old new (c # cs) =
     (if old \<noteq> [] \<and> startswith (c # cs) old
      then new @ replace_ne old new (drop (length old) (c # cs))
      else c # replace_ne old new cs)"
  by pat_completeness auto
termination
  by (relation "measure (\<lambda>(old, new, s). length s)") (auto simp: startswith_def)

definition py_replace :: "string \<Rightarrow> string \<Rightarrow> string \<Rightarrow> string" where
  "py_replace s old new =
     (if old = [] then new @ concat (map (\<lambda>c. c # new) s) else replace_ne old new s)"

text \<open>
  The regular expressions of the client use literal characters, the classes \<open>.\<close> (under
  \<open>re.DOTALL\<close>: any character), \<open>[^c]\<close> and \<open>\s\<close>, the repetitions \<open>*?\<close>,
  \<open>*\<close> and \<open>+\<close> of a class, one capturing group, one alternation and \<open>$\<close>.
  \<open>\s\<close> on a string pattern is Unicode whitespace; below code point 256 that is
  9 to 13, 28 to 32, 133 and 160.
\<close>

datatype cclass = AnyChar | NotChar char | Whitespace

definition is_space :: "char \<Rightarrow> bool" where
  "is_space c = ((of_char c :: nat) \<in> {9, 10, 11, 12, 13, 28, 29, 30, 31, 32, 133, 160})"

fun in_class :: "cclass \<Rightarrow> char \<Rightarrow> bool" where
  "in_class AnyChar c = True"
| "in_class (NotChar x) c = (c \<noteq> x)"
| "in_class Whitespace c = is_space c"

datatype rx =
    Chr char
  | LazyStar cclass
  | GreedyStar cclass
  | GreedyPlus cclass
  | GroupOpen
  | GroupClose
  | Alt "rx list" "rx list"
  | EndAnchor

fun rx_size :: "rx \<Rightarrow> nat" and rxs_size :: "rx list \<Rightarrow> nat" where
  "rx_size (Alt a b) = Suc (rxs_size a + rxs_size b)"
| "rx_size (Chr c) = 1"
| "rx_size (LazyStar k) = 1"
| "rx_size (GreedyStar k) = 1"
| "rx_size (GreedyPlus k) = 1"
| "rx_size GroupOpen = 1"
| "rx_size GroupClose = 1"
| "rx_size EndAnchor = 1"
| "rxs_size [] = 0"
| "rxs_size (x # xs) = rx_size x + rxs_size xs"

lemma rxs_size_append: "rxs_size (a @ b) = rxs_size a + rxs_size b"
  by (induction a) auto

lemma rx_size_pos: "0 < rx_size x"
  by (cases x) auto

text \<open>
  A backtracking matcher, in the order Python's \<open>re\<close> tries the alternatives: a lazy
  repetition tries the rest of the pattern before it takes one more character, a greedy one
  after. The capture is whether the group is open and the text it has taken so far; a
  successful match returns the text of group 1. \<open>$\<close> matches at the end of the string
  and before a newline that ends it.
\<close>

type_synonym capture = "bool \<times> string"

definition consume :: "char \<Rightarrow> capture \<Rightarrow> capture" where
  "consume c st = (if fst st then (True, snd st @ [c]) else st)"

function rx_match :: "rx list \<Rightarrow> string \<Rightarrow> capture \<Rightarrow> string option" where
  "rx_match [] s st = Some (snd st)"
| "rx_match (Chr c # r) [] st = None"
| "rx_match (Chr c # r) (x # xs) st = (if x = c then rx_match r xs (consume x st) else None)"
| "rx_match (LazyStar k # r) [] st = rx_match r [] st"
| "rx_match (LazyStar k # r) (x # xs) st =
     (case rx_match r (x # xs) st of
        Some g \<Rightarrow> Some g
      | None \<Rightarrow> if in_class k x then rx_match (LazyStar k # r) xs (consume x st) else None)"
| "rx_match (GreedyStar k # r) [] st = rx_match r [] st"
| "rx_match (GreedyStar k # r) (x # xs) st =
     (if in_class k x
      then (case rx_match (GreedyStar k # r) xs (consume x st) of
              Some g \<Rightarrow> Some g
            | None \<Rightarrow> rx_match r (x # xs) st)
      else rx_match r (x # xs) st)"
| "rx_match (GreedyPlus k # r) [] st = None"
| "rx_match (GreedyPlus k # r) (x # xs) st =
     (if in_class k x then rx_match (GreedyStar k # r) xs (consume x st) else None)"
| "rx_match (GroupOpen # r) s st = rx_match r s (True, [])"
| "rx_match (GroupClose # r) s st = rx_match r s (False, snd st)"
| "rx_match (Alt a b # r) s st =
     (case rx_match (a @ r) s st of Some g \<Rightarrow> Some g | None \<Rightarrow> rx_match (b @ r) s st)"
| "rx_match (EndAnchor # r) s st =
     (if s = [] \<or> s = [newline] then rx_match r s st else None)"
  by pat_completeness auto
termination
  by (relation "measures [\<lambda>(p, s, st). rxs_size p, \<lambda>(p, s, st). length s]")
     (auto simp: rxs_size_append rx_size_pos)

text \<open>\<open>re.search(p, s)\<close>: the match at the leftmost position that has one; the value is
  \<open>group(1)\<close> of the match.\<close>

fun rx_search :: "rx list \<Rightarrow> string \<Rightarrow> string option" where
  "rx_search p [] = rx_match p [] (False, [])"
| "rx_search p (c # cs) =
     (case rx_match p (c # cs) (False, []) of Some g \<Rightarrow> Some g | None \<Rightarrow> rx_search p cs)"

definition lit :: "string \<Rightarrow> rx list" where
  "lit s = map Chr s"

text \<open>\<^verbatim>\<open>result=(\{.*?\})\<close> with \<open>re.DOTALL\<close>.\<close>

definition re_result :: "rx list" where
  "re_result = lit ''result='' @
     [GroupOpen, Chr CHR ''{'', LazyStar AnyChar, Chr CHR ''}'', GroupClose]"

text \<open>\<^verbatim>\<open>result=(\{.*?\})(?:,\s*error=|\)$)\<close> with \<open>re.DOTALL\<close>.\<close>

definition re_full_result :: "rx list" where
  "re_full_result = lit ''result='' @
     [GroupOpen, Chr CHR ''{'', LazyStar AnyChar, Chr CHR ''}'', GroupClose,
      Alt (Chr CHR '','' # GreedyStar Whitespace # lit ''error='') [Chr CHR '')'', EndAnchor]]"

text \<open>\<^verbatim>\<open>'text':\s*'([^']+)'\<close>.\<close>

definition re_text :: "rx list" where
  "re_text = lit (sq # ''text'' @ [sq] @ '':'') @
     [GreedyStar Whitespace, Chr sq, GroupOpen, GreedyPlus (NotChar sq), GroupClose, Chr sq]"

section \<open>Operations on values of unknown shape\<close>

definition bind_exn :: "exn + 'a \<Rightarrow> ('a \<Rightarrow> exn + 'b) \<Rightarrow> exn + 'b" where
  "bind_exn m f = (case m of Inl e \<Rightarrow> Inl e | Inr v \<Rightarrow> f v)"

text \<open>\<open>k in v\<close> for a string \<open>k\<close>: a key of a dictionary, an element of a list, tuple
  or set, a substring of a string; never an item of an object, whose items are pairs; a
  TypeError on everything else.\<close>

fun py_contains :: "pyval \<Rightarrow> string \<Rightarrow> exn + bool" where
  "py_contains (PDict kvs) k = Inr (dict_lookup kvs k \<noteq> None)"
| "py_contains (PList xs) k = Inr (PStr k \<in> set xs)"
| "py_contains (PTuple xs) k = Inr (PStr k \<in> set xs)"
| "py_contains (PSet xs) k = Inr (PStr k \<in> set xs)"
| "py_contains (PStr s) k = Inr (is_substring k s)"
| "py_contains (PObj s attrs) k = Inr False"
| "py_contains v k = Inl TypeError"

text \<open>\<open>v.get(k, default)\<close>: only a dictionary has the method.\<close>

fun py_get :: "pyval \<Rightarrow> string \<Rightarrow> pyval \<Rightarrow> exn + pyval" where
  "py_get (PDict kvs) k d = Inr (case dict_lookup kvs k of None \<Rightarrow> d | Some v \<Rightarrow> v)"
| "py_get v k d = Inl AttributeError"

text \<open>\<open>v[k]\<close> for a string \<open>k\<close>.\<close>

fun py_getitem :: "pyval \<Rightarrow> string \<Rightarrow> exn + pyval" where
  "py_getitem (PDict kvs) k = (case dict_lookup kvs k of None \<Rightarrow> Inl KeyError | Some v \<Rightarrow> Inr v)"
| "py_getitem v k = Inl TypeError"

text \<open>\<open>len(v) > 0\<close>.\<close>

definition len_positive :: "pyval \<Rightarrow> exn + bool" where
  "len_positive v = bind_exn (py_len v) (\<lambda>n. Inr (0 < n))"

section \<open>The decoder\<close>

text \<open>
  \<open>json.loads\<close> and \<open>ast.literal_eval\<close> are library functions. The decoder takes them
  as parameters, so that what is proved of it for every library holds for Python's.
\<close>

record pylib =
  json_loads :: "string \<Rightarrow> exn + pyval"
  literal_eval :: "string \<Rightarrow> exn + pyval"

text \<open>\<open>if field_name and field_name in result: return result.get(field_name)\<close>, else
  \<open>return result\<close>.\<close>

definition select_field :: "pyval \<Rightarrow> string option \<Rightarrow> exn + pyval" where
  "select_field result field_name =
     (case field_name of
        None \<Rightarrow> Inr result
      | Some f \<Rightarrow>
          if f = [] then Inr result
          else bind_exn (py_contains result f)
                 (\<lambda>present. if present then py_get result f PNone else Inr result))"

text \<open>The three replacements that turn the literal into JSON text.\<close>

definition json_compatible :: "string \<Rightarrow> string" where
  "json_compatible result_str =
     py_replace (py_replace (py_replace (py_replace result_str [sq] [dq])
        ''None'' ''null'') ''True'' ''true'') ''False'' ''false''"

text \<open>
  \<open>extract_jsonrpc(input_str, field_name)\<close>. Only \<open>JSONDecodeError\<close> makes it fall back
  on \<open>ast.literal_eval\<close>; any other exception of \<open>json.loads\<close> or of the field
  selection leaves the function. Every exception of the fallback is caught.
\<close>

definition extract_jsonrpc :: "pylib \<Rightarrow> pyval \<Rightarrow> string option \<Rightarrow> exn + pyval" where
  "extract_jsonrpc lib input_str field_name =
     (case input_str of
        PStr s \<Rightarrow>
          if s = [] \<or> \<not> startswith s ''root='' then Inr PNone
          else
            (case rx_search re_result s of
               None \<Rightarrow> Inr PNone
             | Some g \<Rightarrow>
                 let result_str = (case rx_search re_full_result s of Some full \<Rightarrow> full | None \<Rightarrow> g)
                 in (case bind_exn (json_loads lib (json_compatible result_str))
                            (\<lambda>result_json. select_field result_json field_name) of
                       Inr v \<Rightarrow> Inr v
                     | Inl e \<Rightarrow>
                         if e = JSONDecodeError
                         then (case bind_exn (literal_eval lib result_str)
                                      (\<lambda>result_dict. select_field result_dict field_name) of
                                 Inr v \<Rightarrow> Inr v
                               | Inl ast_error \<Rightarrow> Inr PNone)
                         else Inl e))
      | other \<Rightarrow> Inr PNone)"

text \<open>The value \<open>parse_tool_response\<close> returns: \<open>(value, is_error, error_message)\<close>.\<close>

type_synonym triple = "pyval \<times> bool \<times> pyval"

text \<open>The text of the first content item of a decoded result dictionary, when the item
  is a dictionary with the key \<open>text\<close>. \<open>None\<close> is falling through to the next stage.\<close>

definition first_item_text :: "pyval \<Rightarrow> exn + triple option" where
  "first_item_text first_item =
     (if is_dict first_item
      then bind_exn (py_contains first_item ''text'')
             (\<lambda>present. if present
                then bind_exn (py_getitem first_item ''text'') (\<lambda>t. Inr (Some (t, False, PNone)))
                else Inr None)
      else Inr None)"

definition result_content_text :: "pyval \<Rightarrow> exn + triple option" where
  "result_content_text result =
     bind_exn (py_contains result ''content'')
       (\<lambda>present. if \<not> present then Inr None
          else bind_exn (py_getitem result ''content'')
            (\<lambda>c. if \<not> is_list c then Inr None
               else bind_exn (len_positive c)
                 (\<lambda>nonempty. if \<not> nonempty then Inr None
                    else bind_exn (py_item0 c) first_item_text)))"

text \<open>The regular expression stage: \<open>re.search\<close> for the labelled text field.\<close>

definition regex_text :: "string \<Rightarrow> triple option" where
  "regex_text s = (case rx_search re_text s of None \<Rightarrow> None | Some g \<Rightarrow> Some (PStr g, False, PNone))"

text \<open>The branch for a string with the prefix \<open>root=\<close>.\<close>

definition root_stage :: "pylib \<Rightarrow> string \<Rightarrow> exn + triple option" where
  "root_stage lib s =
     bind_exn (extract_jsonrpc lib (PStr s) None)
       (\<lambda>result.
          bind_exn
            (if truthy result
             then bind_exn (py_get result ''isError'' (PBool False))
                    (\<lambda>is_error.
                       if truthy is_error
                       then bind_exn (py_get result ''message'' (PStr ''Unknown error''))
                              (\<lambda>error_message. Inr (Some (PNone, True, error_message)))
                       else result_content_text result)
             else Inr None)
            (\<lambda>found. case found of Some t \<Rightarrow> Inr (Some t) | None \<Rightarrow> Inr (regex_text s)))"

text \<open>The content list of a result, attribute or dictionary entry: its first item.\<close>

definition content_first_item :: "pyval \<Rightarrow> exn + pyval option" where
  "content_first_item c =
     (if truthy c
      then bind_exn (len_positive c)
             (\<lambda>nonempty. if nonempty then bind_exn (py_item0 c) (\<lambda>x. Inr (Some x)) else Inr None)
      else Inr None)"

text \<open>The branch for a value with an attribute \<open>result\<close>.\<close>

definition object_stage :: "pyval \<Rightarrow> exn + triple option" where
  "object_stage response =
     bind_exn (py_getattr response ''result'')
       (\<lambda>result.
          if py_hasattr result ''content'' \<and> (case py_getattr result ''content'' of Inr c \<Rightarrow> truthy c | Inl e \<Rightarrow> False)
          then bind_exn (py_getattr result ''content'')
                 (\<lambda>c. bind_exn (content_first_item c)
                    (\<lambda>first. case first of
                        None \<Rightarrow> Inr None
                      | Some first_item \<Rightarrow>
                          if py_hasattr first_item ''text''
                          then bind_exn (py_getattr first_item ''text'') (\<lambda>t. Inr (Some (t, False, PNone)))
                          else first_item_text first_item))
          else if is_dict result
          then bind_exn (py_contains result ''content'')
                 (\<lambda>present. if \<not> present then Inr None
                    else bind_exn (py_getitem result ''content'')
                      (\<lambda>c. bind_exn (content_first_item c)
                         (\<lambda>first. case first of
                             None \<Rightarrow> Inr None
                           | Some first_item \<Rightarrow> first_item_text first_item)))
          else Inr None)"

text \<open>The body of the \<open>try\<close> block of \<open>parse_tool_response\<close>.\<close>

definition parse_body :: "pylib \<Rightarrow> pyval \<Rightarrow> exn + triple" where
  "parse_body lib response =
     bind_exn
       (case response of
          PStr s \<Rightarrow> if startswith s ''root='' then root_stage lib s else Inr None
        | other \<Rightarrow> Inr None)
       (\<lambda>from_root. case from_root of
           Some t \<Rightarrow> Inr t
         | None \<Rightarrow>
             bind_exn (if py_hasattr response ''result'' then object_stage response else Inr None)
               (\<lambda>from_object. case from_object of
                   Some t \<Rightarrow> Inr t
                 | None \<Rightarrow>
                     (case response of
                        PStr s \<Rightarrow>
                          (case regex_text s of Some t \<Rightarrow> Inr t | None \<Rightarrow> Inr (PNone, False, PNone))
                      | other \<Rightarrow> Inr (PNone, False, PNone))))"

text \<open>The \<open>except Exception\<close> block of \<open>parse_tool_response\<close>.\<close>

definition parse_handler :: "pyval \<Rightarrow> exn + triple" where
  "parse_handler response =
     (case response of
        PStr s \<Rightarrow> (case regex_text s of Some t \<Rightarrow> Inr t | None \<Rightarrow> Inr (PNone, False, PNone))
      | other \<Rightarrow> Inr (PNone, False, PNone))"

text \<open>\<open>parse_tool_response(response)\<close>.\<close>

definition parse_tool_response :: "pylib \<Rightarrow> pyval \<Rightarrow> exn + triple" where
  "parse_tool_response lib response =
     (case parse_body lib response of
        Inr t \<Rightarrow> Inr t
      | Inl parse_error \<Rightarrow> parse_handler response)"

section \<open>The protocol client\<close>

text \<open>A call returns a value, raises, or waits for ever on a stream that delivers
  nothing.\<close>

datatype 'a result = Returns 'a | Raises exn | Hangs

text \<open>\<open>write_stream.send(m)\<close>; the write itself is taken to succeed.\<close>

definition send_msg :: "sent \<Rightarrow> client \<Rightarrow> client" where
  "send_msg m c = c\<lparr>streams := map_option (\<lambda>(inb, outb). (inb, outb @ [m])) (streams c)\<rparr>"

text \<open>\<open>read_stream.receive()\<close>: the next value of the stream, or nothing when the stream
  has none.\<close>

definition receive :: "client \<Rightarrow> (wire \<times> client) option" where
  "receive c =
     (case streams c of
        Some (response # rest, outb) \<Rightarrow> Some (response, c\<lparr>streams := Some (rest, outb)\<rparr>)
      | other \<Rightarrow> None)"

text \<open>\<open>Client._send_initialize_request\<close>.\<close>

definition send_initialize_request :: "client \<Rightarrow> pyval result \<times> client" where
  "send_initialize_request c =
     (if streams c = None then (Raises (RuntimeError ''Client not initialized with streams''), c)
      else
        let (rid, c1) = get_next_request_id c;
            c2 = send_msg (Some rid, ''initialize'') c1
        in case receive c2 of
             None \<Rightarrow> (Hangs, c2)
           | Some (response, c3) \<Rightarrow>
               (case response of
                  WireExc m \<Rightarrow> (Raises (Reraised m), c3)
                | data \<Rightarrow> (Returns (wire_val response), c3\<lparr>initialized := True\<rparr>)))"

text \<open>\<open>Client._send_initialized_notification\<close>.\<close>

definition send_initialized_notification :: "client \<Rightarrow> pyval result \<times> client" where
  "send_initialized_notification c =
     (if streams c = None then (Raises (RuntimeError ''Client not initialized with streams''), c)
      else (Returns PNone, send_msg (None, ''notifications/initialized'') c))"

text \<open>\<open>for x in v\<close>: the items the loop visits, a TypeError when \<open>v\<close> is not iterable.\<close>

fun py_iter :: "pyval \<Rightarrow> exn + pyval list" where
  "py_iter (PList xs) = Inr xs"
| "py_iter (PTuple xs) = Inr xs"
| "py_iter (PSet xs) = Inr xs"
| "py_iter (PDict kvs) = Inr (map fst kvs)"
| "py_iter (PStr s) = Inr (map (\<lambda>c. PStr [c]) s)"
| "py_iter (PBytes s) = Inr (map (\<lambda>c. PInt (int (of_char c))) s)"
| "py_iter (PObj s attrs) = Inr (map (\<lambda>(name, v). PTuple [PStr name, v]) attrs)"
| "py_iter v = Inl TypeError"

text \<open>\<open>v[:50]\<close>, which the log line of \<open>call_tool\<close> evaluates on the text it found.\<close>

fun py_slice50 :: "pyval \<Rightarrow> exn + pyval" where
  "py_slice50 (PStr s) = Inr (PStr (take 50 s))"
| "py_slice50 (PBytes s) = Inr (PBytes (take 50 s))"
| "py_slice50 (PList xs) = Inr (PList (take 50 xs))"
| "py_slice50 (PTuple xs) = Inr (PTuple (take 50 xs))"
| "py_slice50 v = Inl TypeError"

text \<open>The branch of \<open>call_tool\<close> for a string with the prefix \<open>root=\<close>. It stands
  outside the \<open>try\<close> block: what it raises leaves \<open>call_tool\<close>.\<close>

definition call_root_stage :: "pylib \<Rightarrow> string \<Rightarrow> exn + pyval option" where
  "call_root_stage lib s =
     bind_exn (extract_jsonrpc lib (PStr s) None)
       (\<lambda>result.
          bind_exn
            (if \<not> truthy result then Inr None
             else bind_exn (py_contains result ''content'')
               (\<lambda>present. if \<not> present then Inr None
                  else bind_exn (py_getitem result ''content'')
                    (\<lambda>c. if \<not> is_list c then Inr None
                       else bind_exn (len_positive c)
                         (\<lambda>nonempty. if \<not> nonempty then Inr None
                            else bind_exn (py_item0 c)
                              (\<lambda>content_item. if \<not> is_dict content_item then Inr None
                                 else bind_exn (py_contains content_item ''text'')
                                   (\<lambda>has_text. if \<not> has_text then Inr None
                                      else bind_exn (py_getitem content_item ''text'')
                                        (\<lambda>t. bind_exn (py_slice50 t) (\<lambda>logged. Inr (Some t)))))))))
            (\<lambda>found. case found of
                Some t \<Rightarrow> Inr (Some t)
              | None \<Rightarrow> Inr (map_option PStr (rx_search re_text s))))"

text \<open>The three loops over content items: the first item that is a text item ends the
  loop with its text.\<close>

fun first_text_of_dicts :: "pyval list \<Rightarrow> exn + pyval option" where
  "first_text_of_dicts [] = Inr None"
| "first_text_of_dicts (x # xs) =
     (if is_dict x
      then bind_exn (py_get x ''type'' PNone)
             (\<lambda>ty. bind_exn (py_contains x ''text'')
                (\<lambda>has_text. if ty = PStr ''text'' \<and> has_text
                   then bind_exn (py_getitem x ''text'') (\<lambda>t. Inr (Some t))
                   else first_text_of_dicts xs))
      else first_text_of_dicts xs)"

fun first_text_of_objects :: "pyval list \<Rightarrow> pyval option" where
  "first_text_of_objects [] = None"
| "first_text_of_objects (x # xs) =
     (if py_hasattr x ''type'' \<and> py_getattr x ''type'' = Inr (PStr ''text'') \<and> py_hasattr x ''text''
      then (case py_getattr x ''text'' of Inr t \<Rightarrow> Some t | Inl e \<Rightarrow> None)
      else first_text_of_objects xs)"

fun first_text_of_items :: "pyval list \<Rightarrow> exn + pyval option" where
  "first_text_of_items [] = Inr None"
| "first_text_of_items (x # xs) =
     bind_exn (py_get x ''type'' PNone)
       (\<lambda>ty. if ty \<noteq> PStr ''text'' then first_text_of_items xs
          else bind_exn (py_contains x ''text'')
            (\<lambda>has_text. if has_text
               then bind_exn (py_getitem x ''text'') (\<lambda>t. Inr (Some t))
               else first_text_of_items xs))"

text \<open>The body of the \<open>try\<close> block of \<open>call_tool\<close>; \<open>None\<close> is reaching its last
  line, \<open>return response\<close>.\<close>

definition call_try_body :: "pylib \<Rightarrow> wire \<Rightarrow> exn + pyval option" where
  "call_try_body lib response =
     (let response_str = wire_str response; v = wire_val response in
      bind_exn
        (if startswith response_str ''root=JSONRPCResponse'' \<and> \<not> is_str v
         then bind_exn (extract_jsonrpc lib (PStr response_str) None)
                (\<lambda>result. if \<not> truthy result then Inr None
                   else bind_exn (py_contains result ''content'')
                     (\<lambda>present. if \<not> present then Inr None
                        else bind_exn (py_getitem result ''content'')
                          (\<lambda>content_list. bind_exn (py_iter content_list) first_text_of_dicts)))
         else Inr None)
        (\<lambda>found. case found of
            Some t \<Rightarrow> Inr (Some t)
          | None \<Rightarrow>
              if py_hasattr v ''result''
                 \<and> (case py_getattr v ''result'' of Inr r \<Rightarrow> py_hasattr r ''content'' | Inl e \<Rightarrow> False)
              then bind_exn (py_getattr v ''result'')
                     (\<lambda>r. bind_exn (py_getattr r ''content'')
                        (\<lambda>content_list. bind_exn (py_iter content_list)
                           (\<lambda>items. case first_text_of_objects items of
                               Some t \<Rightarrow> Inr (Some t)
                             | None \<Rightarrow> Inr (Some content_list))))
              else
                (case response of
                   WireStr s \<Rightarrow>
                     (case json_loads lib s of
                        Inl e \<Rightarrow> if e = JSONDecodeError then Inr None else Inl e
                      | Inr json_data \<Rightarrow>
                          bind_exn (py_contains json_data ''result'')
                            (\<lambda>has_result. if \<not> has_result then Inr None
                               else bind_exn (py_getitem json_data ''result'')
                                 (\<lambda>r. bind_exn (py_contains r ''content'')
                                    (\<lambda>has_content. if \<not> has_content then Inr None
                                       else bind_exn (py_getitem r ''content'')
                                         (\<lambda>c. bind_exn (py_iter c) first_text_of_items)))))
                 | other \<Rightarrow> Inr None)))"

text \<open>
  What \<open>call_tool\<close> does with the value it received: an exception instance is raised
  again at once; a string with the prefix \<open>root=\<close> goes through its branch; then the
  \<open>try\<close> block, whose every exception ends in \<open>return response\<close>.
\<close>

definition call_tool_response :: "pylib \<Rightarrow> wire \<Rightarrow> exn + pyval" where
  "call_tool_response lib response =
     (case response of
        WireExc m \<Rightarrow> Inl (Reraised m)
      | data \<Rightarrow>
          bind_exn
            (case response of
               WireStr s \<Rightarrow> if startswith s ''root='' then call_root_stage lib s else Inr None
             | other \<Rightarrow> Inr None)
            (\<lambda>found. case found of
                Some t \<Rightarrow> Inr t
              | None \<Rightarrow>
                  (case call_try_body lib response of
                     Inr (Some t) \<Rightarrow> Inr t
                   | Inr None \<Rightarrow> Inr (wire_val response)
                   | Inl e \<Rightarrow> Inr (wire_val response))))"

text \<open>The request of \<open>call_tool\<close> and its reply, once the session is initialized.\<close>

definition call_tool_request :: "pylib \<Rightarrow> client \<Rightarrow> pyval result \<times> client" where
  "call_tool_request lib c =
     (let (rid, c1) = get_next_request_id c;
          c2 = send_msg (Some rid, ''tools/call'') c1
      in case receive c2 of
           None \<Rightarrow> (Hangs, c2)
         | Some (response, c3) \<Rightarrow>
             (case call_tool_response lib response of
                Inl e \<Rightarrow> (Raises e, c3)
              | Inr v \<Rightarrow> (Returns v, c3)))"

text \<open>\<open>Client.call_tool\<close>. The name and the arguments of the tool go into the request
  and have no other use.\<close>

definition call_tool :: "pylib \<Rightarrow> client \<Rightarrow> pyval result \<times> client" where
  "call_tool lib c =
     (if streams c = None then (Raises (RuntimeError ''Client not initialized with streams''), c)
      else if \<not> initialized c then
        (case send_initialize_request c of
           (Returns init_response, c1) \<Rightarrow>
             (case send_initialized_notification c1 of
                (Returns none, c2) \<Rightarrow> call_tool_request lib c2
              | (Raises e, c2) \<Rightarrow> (Raises e, c2)
              | (Hangs, c2) \<Rightarrow> (Hangs, c2))
         | (Raises e, c1) \<Rightarrow> (Raises e, c1)
         | (Hangs, c1) \<Rightarrow> (Hangs, c1))
      else call_tool_request lib c)"

text \<open>
  \<open>Client.list_tools\<close>. The wait for the reply is bounded: a stream that delivers
  nothing ends in \<open>return None\<close>. So does an exception of the first
  \<open>extract_jsonrpc(response)\<close>, and an exception instance as the reply. The tools are
  parsed inside a \<open>try\<close> block that swallows every exception; the lines that print and
  log change nothing and are left out.
\<close>

definition list_tools :: "pylib \<Rightarrow> client \<Rightarrow> pyval result \<times> client" where
  "list_tools lib c =
     (if streams c = None \<or> \<not> initialized c then (Raises (RuntimeError ''Client not initialized''), c)
      else
        let (rid, c1) = get_next_request_id c;
            c2 = send_msg (Some rid, ''tools/list'') c1
        in case receive c2 of
             None \<Rightarrow> (Returns PNone, c2)
           | Some (response, c3) \<Rightarrow>
               (case extract_jsonrpc lib (wire_val response) None of
                  Inl e \<Rightarrow> (Returns PNone, c3)
                | Inr extract \<Rightarrow>
                    (case response of
                       WireExc m \<Rightarrow> (Returns PNone, c3)
                     | data \<Rightarrow>
                         let response_str = wire_str response;
                             c4 = c3\<lparr>available_tools := PList []\<rparr>;
                             c5 = (if startswith response_str ''root=''
                                   then (case extract_jsonrpc lib (PStr response_str) (Some ''tools'') of
                                           Inl e \<Rightarrow> c4
                                         | Inr tools \<Rightarrow>
                                             if truthy tools then c4\<lparr>available_tools := tools\<rparr> else c4)
                                   else c4)
                         in (Returns (wire_val response), c5))))"

section \<open>Models of the library parsers\<close>

text \<open>
  The theorems about single inputs need the values \<open>json.loads\<close> and
  \<open>ast.literal_eval\<close> give there. The models below say what Python does on the texts
  they cover and nothing on the others. \<open>json.loads\<close> is covered on every text, within
  the recursion limit of the interpreter, but for two cases: a \<open>\u\<close> escape of a code
  point from 256 on, and an integer of more than 4300 digits.
\<close>

datatype jtok =
    TLBrace | TRBrace | TLBrack | TRBrack | TComma | TColon
  | TStr string
  | TVal pyval

text \<open>What a model of a library function says of an input: Python rejects it, Python
  accepts it with this value, or the model does not cover it.\<close>

datatype 'a outcome = Rejected | Accepted 'a | Uncovered

definition is_json_space :: "char \<Rightarrow> bool" where
  "is_json_space c = (c \<in> set [CHR '' '', CHR 0x09, CHR 0x0A, CHR 0x0D])"

definition is_hex :: "char \<Rightarrow> bool" where
  "is_hex c = (c \<in> set ''0123456789abcdefABCDEF'')"

definition hex_val :: "char \<Rightarrow> nat" where
  "hex_val c =
     (if is_digit c then of_char c - 48
      else if c \<in> set ''abcdef'' then of_char c - 87
      else of_char c - 55)"

definition hex4 :: "string \<Rightarrow> nat" where
  "hex4 hs = foldl (\<lambda>a h. 16 * a + hex_val h) 0 hs"

text \<open>The escape after a backslash in a JSON string: the character it denotes and what
  follows it. A \<open>\u\<close> escape of a code point from 256 on is not covered.\<close>

definition json_escape :: "string \<Rightarrow> (char \<times> string) outcome" where
  "json_escape s =
     (case s of
        [] \<Rightarrow> Rejected
      | e # es \<Rightarrow>
          if e = CHR ''u''
          then (if 4 \<le> length es \<and> list_all is_hex (take 4 es)
                then (if hex4 (take 4 es) < 256
                      then Accepted (char_of (hex4 (take 4 es)), drop 4 es) else Uncovered)
                else Rejected)
          else (case map_of [(dq, dq), (bslash, bslash), (CHR ''/'', CHR ''/''), (CHR ''b'', CHR 0x08),
                   (CHR ''f'', CHR 0x0C), (CHR ''n'', CHR 0x0A), (CHR ''r'', CHR 0x0D), (CHR ''t'', CHR 0x09)] e of
                  None \<Rightarrow> Rejected
                | Some x \<Rightarrow> Accepted (x, es)))"

lemma json_escape_shorter: "json_escape s = Accepted (x, r) \<Longrightarrow> length r < length s"
  unfolding json_escape_def
  by (cases s) (auto split: if_splits option.splits)

text \<open>The characters after the opening quote of a JSON string, up to the closing quote:
  the text of the string and what follows it. A control character is rejected.\<close>

function json_string :: "string \<Rightarrow> string \<Rightarrow> (string \<times> string) outcome" where
  "json_string acc [] = Rejected"
| "json_string acc (c # cs) =
     (if c = dq then Accepted (acc, cs)
      else if c = bslash
      then (case json_escape cs of
              Rejected \<Rightarrow> Rejected
            | Uncovered \<Rightarrow> Uncovered
            | Accepted (x, rest) \<Rightarrow> json_string (acc @ [x]) rest)
      else if (of_char c :: nat) < 32 then Rejected
      else json_string (acc @ [c]) cs)"
  by pat_completeness auto
termination
  by (relation "measure (\<lambda>(acc, s). length s)") (auto dest: json_escape_shorter)

lemma json_string_shorter: "json_string acc s = Accepted (t, r) \<Longrightarrow> length r < length s"
proof (induction acc s rule: json_string.induct)
  case (1 acc)
  then show ?case by simp
next
  case (2 acc c cs)
  show ?case
  proof (cases "c = dq")
    case True
    with 2 show ?thesis by simp
  next
    case nq: False
    show ?thesis
    proof (cases "c = bslash")
      case True
      with nq 2 obtain x rest where e: "json_escape cs = Accepted (x, rest)"
        and j: "json_string (acc @ [x]) rest = Accepted (t, r)"
        by (auto split: outcome.splits)
      from "2.IH"(1) [OF nq True e refl j] json_escape_shorter [OF e] show ?thesis by simp
    next
      case False
      with nq 2 show ?thesis by (auto split: if_splits)
    qed
  qed
qed

text \<open>A JSON number at the head of the text, as the pattern
  \<^verbatim>\<open>(-?(?:0|[1-9]\d*))(\.\d+)?([eE][-+]?\d+)?\<close> matches it: its integer part,
  fraction and exponent.\<close>

definition int_part :: "string \<Rightarrow> string" where
  "int_part s = (case s of c # cs \<Rightarrow> if c = CHR ''0'' then ''0'' else takeWhile is_digit s | [] \<Rightarrow> [])"

definition frac_part :: "string \<Rightarrow> string" where
  "frac_part s =
     (case s of
        c # d # cs \<Rightarrow> if c = CHR ''.'' \<and> is_digit d then c # takeWhile is_digit (d # cs) else []
      | short \<Rightarrow> [])"

definition exp_part :: "string \<Rightarrow> string" where
  "exp_part s =
     (case s of
        c # cs \<Rightarrow>
          if c = CHR ''e'' \<or> c = CHR ''E'' then
            (case cs of
               d # ds \<Rightarrow>
                 if is_digit d then c # takeWhile is_digit cs
                 else if (d = CHR ''+'' \<or> d = CHR ''-'') \<and> (case ds of x # xs \<Rightarrow> is_digit x | [] \<Rightarrow> False)
                 then c # d # takeWhile is_digit ds
                 else []
             | [] \<Rightarrow> [])
          else []
      | [] \<Rightarrow> [])"

text \<open>The number and what follows it. An integer of more than 4300 digits is not
  covered (the interpreter limits the conversion).\<close>

definition json_number :: "string \<Rightarrow> (pyval \<times> string) outcome" where
  "json_number s =
     (let sign = (if startswith s ''-'' then ''-'' else []);
          s1 = drop (length sign) s;
          ip = int_part s1;
          s2 = drop (length ip) s1;
          fp = frac_part s2;
          s3 = drop (length fp) s2;
          ep = exp_part s3;
          s4 = drop (length ep) s3
      in if ip = [] then Rejected
         else if fp = [] \<and> ep = []
         then (if length ip \<le> 4300 then Accepted (PInt (int_of_str (sign @ ip)), s4) else Uncovered)
         else Accepted (PFloat (sign @ ip @ fp @ ep), s4))"

lemma int_part_nonempty: "int_part s \<noteq> [] \<Longrightarrow> s \<noteq> []"
  by (auto simp: int_part_def)

lemma json_number_shorter:
  assumes "json_number s = Accepted (v, r)"
  shows "length r < length s"
proof -
  define sign where "sign = (if startswith s ''-'' then ''-'' else [])"
  define s1 where "s1 = drop (length sign) s"
  define ip where "ip = int_part s1"
  define s2 where "s2 = drop (length ip) s1"
  define s3 where "s3 = drop (length (frac_part s2)) s2"
  define s4 where "s4 = drop (length (exp_part s3)) s3"
  from assms have r: "r = s4" and ne: "ip \<noteq> []"
    unfolding json_number_def Let_def sign_def [symmetric] s1_def [symmetric] ip_def [symmetric]
      s2_def [symmetric] s3_def [symmetric] s4_def [symmetric]
    by (auto split: if_splits)
  from ne have "s1 \<noteq> []" using int_part_nonempty ip_def by blast
  then have "length s2 < length s1" using ne by (simp add: s2_def)
  moreover have "length s4 \<le> length s2" by (simp add: s4_def s3_def)
  moreover have "length s1 \<le> length s" by (simp add: s1_def)
  ultimately show ?thesis using r by simp
qed

definition tok_cons :: "jtok \<Rightarrow> jtok list outcome \<Rightarrow> jtok list outcome" where
  "tok_cons t r = (case r of Accepted ts \<Rightarrow> Accepted (t # ts) | Rejected \<Rightarrow> Rejected | Uncovered \<Rightarrow> Uncovered)"

definition json_words :: "(string \<times> pyval) list" where
  "json_words = [(''null'', PNone), (''true'', PBool True), (''false'', PBool False),
     (''NaN'', PFloat ''nan''), (''Infinity'', PFloat ''inf''), (''-Infinity'', PFloat ''-inf'')]"

definition punctuation :: "(char \<times> jtok) list" where
  "punctuation = [(CHR ''{'', TLBrace), (CHR ''}'', TRBrace), (CHR ''['', TLBrack),
     (CHR '']'', TRBrack), (CHR '','', TComma), (CHR '':'', TColon)]"

text \<open>The first word of the table that the text starts with.\<close>

fun leading_word :: "(string \<times> pyval) list \<Rightarrow> string \<Rightarrow> (string \<times> pyval) option" where
  "leading_word [] s = None"
| "leading_word ((w, v) # ws) s = (if w \<noteq> [] \<and> startswith s w then Some (w, v) else leading_word ws s)"

lemma leading_word_nonempty: "leading_word ws s = Some (w, v) \<Longrightarrow> w \<noteq> [] \<and> s \<noteq> []"
  by (induction ws s rule: leading_word.induct) (auto simp: startswith_def split: if_splits)

text \<open>The tokens of a JSON text.\<close>

function json_lex :: "string \<Rightarrow> jtok list outcome" where
  "json_lex [] = Accepted []"
| "json_lex (c # cs) =
     (if is_json_space c then json_lex cs
      else case map_of punctuation c of
          Some t \<Rightarrow> tok_cons t (json_lex cs)
        | None \<Rightarrow>
            if c = dq
            then (case json_string [] cs of
                    Rejected \<Rightarrow> Rejected
                  | Uncovered \<Rightarrow> Uncovered
                  | Accepted (t, rest) \<Rightarrow> tok_cons (TStr t) (json_lex rest))
            else (case leading_word json_words (c # cs) of
                    Some (w, v) \<Rightarrow> tok_cons (TVal v) (json_lex (drop (length w) (c # cs)))
                  | None \<Rightarrow>
                      (case json_number (c # cs) of
                         Rejected \<Rightarrow> Rejected
                       | Uncovered \<Rightarrow> Uncovered
                       | Accepted (v, rest) \<Rightarrow> tok_cons (TVal v) (json_lex rest))))"
  by pat_completeness auto
termination
  by (relation "measure length")
     (auto dest: json_string_shorter json_number_shorter leading_word_nonempty)

text \<open>
  The parser works on the tokens with a stack of the open arrays and objects. After a
  value, an array takes a comma or its closing bracket; an object takes a key, a colon, a
  value, then a comma or its closing brace. A key given twice keeps its place and takes
  the later value.
\<close>

datatype frame = InArray "pyval list" | InObject "(pyval \<times> pyval) list" "string option"

datatype expect = Value | ValueOrClose | KeyOrClose | Key | Colon | AfterValue

datatype jstate = Parsing expect "frame list" | Finished pyval

fun dict_set :: "(pyval \<times> pyval) list \<Rightarrow> pyval \<Rightarrow> pyval \<Rightarrow> (pyval \<times> pyval) list" where
  "dict_set [] k v = [(k, v)]"
| "dict_set ((k', v') # kvs) k v = (if k' = k then (k', v) # kvs else (k', v') # dict_set kvs k v)"

text \<open>A complete value goes to the innermost open array or object.\<close>

fun reduce :: "pyval \<Rightarrow> frame list \<Rightarrow> jstate option" where
  "reduce v [] = Some (Finished v)"
| "reduce v (InArray items # st) = Some (Parsing AfterValue (InArray (items @ [v]) # st))"
| "reduce v (InObject d (Some k) # st) = Some (Parsing AfterValue (InObject (dict_set d (PStr k) v) None # st))"
| "reduce v (InObject d None # st) = None"

fun jstep :: "jstate \<Rightarrow> jtok \<Rightarrow> jstate option" where
  "jstep (Finished v) t = None"
| "jstep (Parsing e st) t =
     (if e = Value \<or> e = ValueOrClose then
        (case t of
           TVal v \<Rightarrow> reduce v st
         | TStr s \<Rightarrow> reduce (PStr s) st
         | TLBrack \<Rightarrow> Some (Parsing ValueOrClose (InArray [] # st))
         | TLBrace \<Rightarrow> Some (Parsing KeyOrClose (InObject [] None # st))
         | TRBrack \<Rightarrow>
             (case st of
                InArray items # st' \<Rightarrow> if e = ValueOrClose then reduce (PList items) st' else None
              | other \<Rightarrow> None)
         | other \<Rightarrow> None)
      else if e = KeyOrClose \<or> e = Key then
        (case st of
           InObject d pending # st' \<Rightarrow>
             (case t of
                TStr k \<Rightarrow> Some (Parsing Colon (InObject d (Some k) # st'))
              | TRBrace \<Rightarrow> if e = KeyOrClose then reduce (PDict d) st' else None
              | other \<Rightarrow> None)
         | other \<Rightarrow> None)
      else if e = Colon then (if t = TColon then Some (Parsing Value st) else None)
      else
        (case st of
           InArray items # st' \<Rightarrow>
             (if t = TComma then Some (Parsing Value st)
              else if t = TRBrack then reduce (PList items) st' else None)
         | InObject d pending # st' \<Rightarrow>
             (if t = TComma then Some (Parsing Key st)
              else if t = TRBrace then reduce (PDict d) st' else None)
         | [] \<Rightarrow> None))"

fun jparse :: "jstate \<Rightarrow> jtok list \<Rightarrow> pyval option" where
  "jparse (Finished v) [] = Some v"
| "jparse (Parsing e st) [] = None"
| "jparse js (t # ts) = (case jstep js t of None \<Rightarrow> None | Some js' \<Rightarrow> jparse js' ts)"

text \<open>What Python does outside the cover of the models is left open.\<close>

definition uncovered_json :: "string \<Rightarrow> exn + pyval" where
  "uncovered_json = undefined"

definition uncovered_literal :: "string \<Rightarrow> exn + pyval" where
  "uncovered_literal = undefined"

text \<open>\<open>json.loads(s)\<close> for a string \<open>s\<close>.\<close>

definition json_loads_model :: "string \<Rightarrow> exn + pyval" where
  "json_loads_model s =
     (case json_lex s of
        Rejected \<Rightarrow> Inl JSONDecodeError
      | Uncovered \<Rightarrow> uncovered_json s
      | Accepted ts \<Rightarrow>
          (case jparse (Parsing Value []) ts of None \<Rightarrow> Inl JSONDecodeError | Some v \<Rightarrow> Inr v))"

text \<open>
  \<open>ast.literal_eval\<close> is covered on the literals written like JSON texts with Python's
  tokens: dictionaries with string keys and lists, without a trailing comma; strings in
  single or double quotes, of printable ASCII characters without a backslash; decimal
  numbers; \<open>None\<close>, \<open>True\<close>, \<open>False\<close>; blanks and tabs between the tokens. On these
  Python returns the value read here, within the nesting limit of its parser.
\<close>

fun py_string :: "char \<Rightarrow> string \<Rightarrow> string \<Rightarrow> (string \<times> string) option" where
  "py_string q acc [] = None"
| "py_string q acc (c # cs) =
     (if c = q then Some (acc, cs)
      else if c = bslash \<or> (of_char c :: nat) < 32 \<or> 126 < (of_char c :: nat) then None
      else py_string q (acc @ [c]) cs)"

lemma py_string_shorter: "py_string q acc s = Some (t, r) \<Longrightarrow> length r < length s"
  by (induction q acc s rule: py_string.induct) (auto split: if_splits)

definition py_words :: "(string \<times> pyval) list" where
  "py_words = [(''None'', PNone), (''True'', PBool True), (''False'', PBool False)]"

function py_lex :: "string \<Rightarrow> jtok list option" where
  "py_lex [] = Some []"
| "py_lex (c # cs) =
     (if c = CHR '' '' \<or> c = CHR 0x09 then py_lex cs
      else case map_of punctuation c of
          Some t \<Rightarrow> map_option ((#) t) (py_lex cs)
        | None \<Rightarrow>
            if c = sq \<or> c = dq
            then (case py_string c [] cs of
                    None \<Rightarrow> None
                  | Some (t, rest) \<Rightarrow> map_option ((#) (TStr t)) (py_lex rest))
            else (case leading_word py_words (c # cs) of
                    Some (w, v) \<Rightarrow> map_option ((#) (TVal v)) (py_lex (drop (length w) (c # cs)))
                  | None \<Rightarrow>
                      (case json_number (c # cs) of
                         Accepted (v, rest) \<Rightarrow> map_option ((#) (TVal v)) (py_lex rest)
                       | other \<Rightarrow> None)))"
  by pat_completeness auto
termination
  by (relation "measure length")
     (auto dest: py_string_shorter json_number_shorter leading_word_nonempty)

text \<open>\<open>ast.literal_eval(s)\<close> for a string \<open>s\<close>.\<close>

definition literal_eval_model :: "string \<Rightarrow> exn + pyval" where
  "literal_eval_model s =
     (case py_lex s of
        None \<Rightarrow> uncovered_literal s
      | Some ts \<Rightarrow>
          (case jparse (Parsing Value []) ts of None \<Rightarrow> uncovered_literal s | Some v \<Rightarrow> Inr v))"

definition python_lib :: pylib where
  "python_lib = \<lparr> json_loads = json_loads_model, literal_eval = literal_eval_model \<rparr>"

section \<open>Scenarios and wire renderings\<close>

text \<open>The wire string of the scenario of a well-formed reply.\<close>

definition scenario_42 :: string where
  "scenario_42 =
     ''root=JSONRPCResponse(id='1', result={'content': [{'type': 'text', 'text': '42'}], 'isError': False})''"

text \<open>A reply that arrives as a structured object and reports a tool failure.\<close>

definition native_error_reply :: pyval where
  "native_error_reply =
     PObj ''root=JSONRPCResponse(...)''
       [(''id'', PStr ''1''),
        (''result'', PObj ''ToolCallResult(...)''
           [(''content'', PList [PObj ''TextContent(...)'' [(''type'', PStr ''text''), (''text'', PStr ''boom'')]]),
            (''isError'', PBool True),
            (''message'', PStr ''tool failed'')])]"

text \<open>A string has a result fragment when \<^verbatim>\<open>result={\<close> occurs in it with a closing
  brace somewhere after.\<close>

definition has_result_fragment :: "string \<Rightarrow> bool" where
  "has_result_fragment s = (\<exists>a b c. s = a @ ''result={'' @ b @ ''}'' @ c)"

text \<open>An initialized client that holds one tool from an earlier discovery and will
  receive the given reply.\<close>

definition stale_client :: "string \<Rightarrow> client" where
  "stale_client reply =
     \<lparr> streams = Some ([WireStr reply], []), request_id = 1, initialized = True,
       available_tools = PList [PDict [(PStr ''name'', PStr ''old_tool'')]] \<rparr>"

text \<open>The label of the text field as the pattern asks for it, \<^verbatim>\<open>'text':\<close>, and the
  labelled field of the scenario, \<^verbatim>\<open>'text': 'hello world'\<close>.\<close>

definition text_label :: string where
  "text_label = sq # ''text'' @ [sq] @ '':''"

definition hello_field :: string where
  "hello_field = '''text': 'hello world'' @ [sq]"

text \<open>A wire string has no structure the decoder can parse when it has not the prefix
  \<open>root=\<close>, or when \<open>extract_jsonrpc\<close> raises on it or returns nothing.\<close>

definition undecodable :: "pylib \<Rightarrow> string \<Rightarrow> bool" where
  "undecodable lib s =
     (\<not> startswith s ''root=''
      \<or> (case extract_jsonrpc lib (PStr s) None of Inl e \<Rightarrow> True | Inr v \<Rightarrow> \<not> truthy v))"


text \<open>
  Modelled from the spec: the three wire shapes of such a result. The encoder is the
  peer's and not in the source; the strings follow the scenario of the spec, a dictionary
  with the entries \<open>content\<close> and \<open>isError\<close>, and \<open>message\<close> when there is
  one, inside \<open>root=JSONRPCResponse(id=..., result=...)\<close>. The styling is given by the
  quote character and the two words for the truth values: single quotes with \<open>True\<close>
  and \<open>False\<close>, or double quotes with \<open>true\<close> and \<open>false\<close>. A text is written
  between the quotes as it is, without escapes.
\<close>

definition quoted :: "char \<Rightarrow> string \<Rightarrow> string" where
  "quoted q t = q # t @ [q]"

definition item_text :: "char \<Rightarrow> string \<times> string \<Rightarrow> string" where
  "item_text q it =
     ''{'' @ quoted q ''type'' @ '': '' @ quoted q (fst it) @ '', '' @ quoted q ''text'' @ '': ''
       @ quoted q (snd it) @ ''}''"

fun items_text :: "char \<Rightarrow> (string \<times> string) list \<Rightarrow> string" where
  "items_text q [] = []"
| "items_text q (it # its) = item_text q it @ (if its = [] then [] else '', '' @ items_text q its)"

definition message_text :: "char \<Rightarrow> string option \<Rightarrow> string" where
  "message_text q msg =
     (case msg of None \<Rightarrow> [] | Some m \<Rightarrow> '', '' @ quoted q ''message'' @ '': '' @ quoted q m)"

definition result_text :: "char \<Rightarrow> string \<Rightarrow> (string \<times> string) list \<Rightarrow> string option \<Rightarrow> string" where
  "result_text q word items msg =
     ''{'' @ quoted q ''content'' @ '': ['' @ items_text q items @ ''], '' @ quoted q ''isError''
       @ '': '' @ word @ message_text q msg @ ''}''"

definition literal_result :: "(string \<times> string) list \<Rightarrow> bool \<Rightarrow> string option \<Rightarrow> string" where
  "literal_result items e msg = result_text sq (if e then ''True'' else ''False'') items msg"


definition render_literal :: "(string \<times> string) list \<Rightarrow> bool \<Rightarrow> string option \<Rightarrow> string" where
  "render_literal items e msg = ''root=JSONRPCResponse(id='1', result='' @ literal_result items e msg @ '')''"



text \<open>
  Modelled from the spec: the result as a dictionary, which is what \<open>extract_jsonrpc\<close>
  is to give back for a string rendering, and the triple \<open>parse_tool_response\<close> is to
  return for it: for a failure the flag and the message, \<open>Unknown error\<close> when the
  result has none; otherwise the text of the first item, \<open>None\<close> when there is no item.
\<close>

definition item_dict :: "string \<times> string \<Rightarrow> pyval" where
  "item_dict it = PDict [(PStr ''type'', PStr (fst it)), (PStr ''text'', PStr (snd it))]"

definition result_dict :: "(string \<times> string) list \<Rightarrow> bool \<Rightarrow> string option \<Rightarrow> pyval" where
  "result_dict items e msg =
     PDict ([(PStr ''content'', PList (map item_dict items)), (PStr ''isError'', PBool e)]
        @ (case msg of None \<Rightarrow> [] | Some m \<Rightarrow> [(PStr ''message'', PStr m)]))"




definition error_follows :: "string \<Rightarrow> bool" where
  "error_follows s =
     (case s of [] \<Rightarrow> False | c # cs \<Rightarrow> c = CHR '','' \<and> startswith (dropWhile is_space cs) ''error='')"

definition closes :: "string \<Rightarrow> bool" where
  "closes s = (error_follows s \<or> s = '')'' \<or> s = [CHR '')'', newline])"








section \<open>Proofs\<close>

lemma digit_val_digit_char: "d < 10 \<Longrightarrow> digit_val (digit_char d) = d"
  by (simp add: digit_val_def digit_char_def)

lemma nat_of_digits_snoc: "nat_of_digits (s @ [c]) = 10 * nat_of_digits s + digit_val c"
  by (simp add: nat_of_digits_def)

lemma nat_of_digits_str_nat: "nat_of_digits (str_nat n) = n"
proof (induction n rule: str_nat.induct)
  case (1 n)
  show ?case
  proof (cases "n < 10")
    case True
    then show ?thesis
      by (subst str_nat.simps) (simp add: nat_of_digits_def digit_val_digit_char)
  next
    case False
    with 1 have "nat_of_digits (str_nat (n div 10)) = n div 10" by simp
    with False show ?thesis
      by (subst str_nat.simps) (simp add: nat_of_digits_snoc digit_val_digit_char)
  qed
qed

lemma str_nat_hd_not_minus: "str_nat n \<noteq> [] \<and> hd (str_nat n) \<noteq> CHR ''-''"
proof (induction n rule: str_nat.induct)
  case (1 n)
  show ?case
  proof (cases "n < 10")
    case True
    then have "(of_char (digit_char n) :: nat) = 48 + n"
      by (simp add: digit_char_def)
    then have "digit_char n \<noteq> CHR ''-''"
      by auto
    with True show ?thesis by (subst (1 2) str_nat.simps) simp
  next
    case False
    with 1 show ?thesis by (subst (1 2) str_nat.simps) simp
  qed
qed

lemma int_of_str_str_int: "0 \<le> i \<Longrightarrow> int_of_str (str_int i) = i"
proof -
  assume "0 \<le> i"
  obtain c cs where s: "str_nat (nat i) = c # cs" "c \<noteq> CHR ''-''"
    using str_nat_hd_not_minus [of "nat i"] by (cases "str_nat (nat i)") auto
  have "nat_of_digits (c # cs) = nat i"
    using nat_of_digits_str_nat [of "nat i"] s by simp
  with s \<open>0 \<le> i\<close> show ?thesis
    by (simp add: int_of_str_def str_int_def)
qed

lemma next_ids_from:
  "fst (next_ids n c) = map (\<lambda>k. str_int (request_id c + int k)) [1..<Suc n]"
proof (induction n arbitrary: c)
  case 0
  show ?case by simp
next
  case (Suc n)
  let ?c' = "c\<lparr>request_id := request_id c + 1\<rparr>"
  have "fst (next_ids (Suc n) c) = str_int (request_id c + 1) # fst (next_ids n ?c')"
    by (simp add: get_next_request_id_def Let_def split: prod.splits)
  also have "fst (next_ids n ?c') = map (\<lambda>k. str_int (request_id c + 1 + int k)) [1..<Suc n]"
    using Suc.IH [of ?c'] by simp
  also have "\<dots> = map (\<lambda>k. str_int (request_id c + int k)) (map Suc [1..<Suc n])"
    by (simp add: algebra_simps)
  also have "map Suc [1..<Suc n] = [Suc 1..<Suc (Suc n)]"
    by (rule map_Suc_upt)
  finally have "fst (next_ids (Suc n) c)
      = map (\<lambda>k. str_int (request_id c + int k)) (1 # [Suc 1..<Suc (Suc n)])"
    by simp
  also have "1 # [Suc 1..<Suc (Suc n)] = [1..<Suc (Suc n)]"
    using upt_conv_Cons [of 1 "Suc (Suc n)"] by (simp del: upt_Suc)
  finally show ?case .
qed

text \<open>
  C6. For every N, calling \<open>_get_next_request_id\<close> N times on a freshly constructed
  client returns the decimal texts of 1, 2, ..., N, in this order: they are pairwise
  distinct and the numbers they denote increase strictly.
\<close>

theorem next_ids_fresh:
  "fst (next_ids N new_client) = map (\<lambda>k. str_int (int k)) [1..<Suc N]
   \<and> distinct (fst (next_ids N new_client))
   \<and> sorted_wrt (<) (map int_of_str (fst (next_ids N new_client)))
   \<and> length (fst (next_ids N new_client)) = N"
proof -
  have eq: "fst (next_ids N new_client) = map (\<lambda>k. str_int (int k)) [1..<Suc N]"
    using next_ids_from [of N new_client] by (simp add: new_client_def)
  have vals: "map int_of_str (map (\<lambda>k. str_int (int k)) [1..<Suc N]) = map int [1..<Suc N]"
    by (simp add: int_of_str_str_int)
  have "sorted_wrt (<) [1..<Suc N]"
    by (rule sorted_wrt_upt)
  then have inc: "sorted_wrt (<) (map int [1..<Suc N])"
    unfolding sorted_wrt_map by (simp del: upt_Suc)
  have "distinct (map int [1..<Suc N])"
    using inc strict_sorted_iff by blast
  then have "distinct (map int_of_str (map (\<lambda>k. str_int (int k)) [1..<Suc N]))"
    by (simp only: vals)
  then have "distinct (map (\<lambda>k. str_int (int k)) [1..<Suc N])"
    using distinct_map by blast
  then have d: "distinct (fst (next_ids N new_client))"
    by (simp only: eq)
  have i: "sorted_wrt (<) (map int_of_str (fst (next_ids N new_client)))"
    using inc by (simp only: eq vals)
  have l: "length (fst (next_ids N new_client)) = N"
    by (simp only: eq length_map length_upt)
  show ?thesis
    by (intro conjI) (rule eq, rule d, rule i, rule l)
qed

text \<open>
  C8. \<open>get_text_value\<close> never raises. It returns the text of the first content item
  when that item is a \<open>TextContent\<close>, the value under the key \<open>text\<close> when the first
  item is a dictionary that has this key, and \<open>None\<close> in every other case, the empty
  content list included.
\<close>

theorem get_text_value_cases:
  "get_text_value r = Inr
     (case content r of
        [] \<Rightarrow> PNone
      | TextContent ty v # rest \<Rightarrow> PStr v
      | DictItem d # rest \<Rightarrow> (case map_of d ''text'' of Some x \<Rightarrow> x | None \<Rightarrow> PNone))"
  by (auto simp: get_text_value_def list_item0_def dict_getitem_def
           split: list.splits content_item.splits option.splits)

theorem get_text_value_cases_witness:
  "get_text_value \<lparr> content = [TextContent ''text'' ''42''], isError = False, message = None \<rparr>
     = Inr (PStr ''42'')
   \<and> get_text_value \<lparr> content = [DictItem [(''text'', PStr ''hi'')]], isError = False, message = None \<rparr>
     = Inr (PStr ''hi'')
   \<and> get_text_value \<lparr> content = [DictItem [(''type'', PStr ''image'')]], isError = False, message = None \<rparr>
     = Inr PNone
   \<and> get_text_value \<lparr> content = [], isError = True, message = Some ''boom'' \<rparr> = Inr PNone"
  by (simp add: get_text_value_cases)

lemma bind_exn_simps [simp]:
  "bind_exn (Inl e) f = Inl e"
  "bind_exn (Inr v) f = f v"
  by (simp_all add: bind_exn_def)

lemmas rx_defs = re_result_def re_full_result_def re_text_def lit_def consume_def is_space_def

lemmas json_defs = json_loads_model_def json_compatible_def py_replace_def startswith_def
  is_json_space_def punctuation_def json_words_def tok_cons_def json_number_def int_part_def
  frac_part_def exp_part_def is_digit_def int_of_str_def nat_of_digits_def digit_val_def

lemmas stage_defs = parse_tool_response_def parse_body_def parse_handler_def root_stage_def
  object_stage_def regex_text_def result_content_text_def first_item_text_def
  content_first_item_def len_positive_def dict_lookup_def

subsection \<open>The scenario of a well-formed reply\<close>

lemma extract_scenario_42:
  "extract_jsonrpc python_lib (PStr scenario_42) None = Inr (PDict
     [(PStr ''content'', PList [PDict [(PStr ''type'', PStr ''text''), (PStr ''text'', PStr ''42'')]]),
      (PStr ''isError'', PBool False)])"
  by (simp add: extract_jsonrpc_def python_lib_def scenario_42_def select_field_def rx_defs json_defs)

text \<open>
  C1. On the wire string of the scenario, \<open>extract_jsonrpc\<close> returns the dictionary with
  the content list of one text item \<open>42\<close> and \<open>isError\<close> false, and
  \<open>parse_tool_response\<close> returns \<open>('42', False, None)\<close>; \<open>get_text_value\<close> on the
  canonical result with this content returns \<open>42\<close>.
\<close>

theorem decode_scenario_42:
  "extract_jsonrpc python_lib (PStr scenario_42) None = Inr (PDict
     [(PStr ''content'', PList [PDict [(PStr ''type'', PStr ''text''), (PStr ''text'', PStr ''42'')]]),
      (PStr ''isError'', PBool False)])
   \<and> parse_tool_response python_lib (PStr scenario_42) = Inr (PStr ''42'', False, PNone)
   \<and> get_text_value \<lparr> content = [TextContent ''text'' ''42''], isError = False, message = None \<rparr>
       = Inr (PStr ''42'')"
proof (intro conjI)
  show "extract_jsonrpc python_lib (PStr scenario_42) None = Inr (PDict
     [(PStr ''content'', PList [PDict [(PStr ''type'', PStr ''text''), (PStr ''text'', PStr ''42'')]]),
      (PStr ''isError'', PBool False)])"
    by (rule extract_scenario_42)
  have "startswith scenario_42 ''root=''"
    by (simp add: scenario_42_def startswith_def)
  then show "parse_tool_response python_lib (PStr scenario_42) = Inr (PStr ''42'', False, PNone)"
    by (simp add: stage_defs extract_scenario_42)
  show "get_text_value \<lparr> content = [TextContent ''text'' ''42''], isError = False, message = None \<rparr>
       = Inr (PStr ''42'')"
    by (simp add: get_text_value_def list_item0_def)
qed

subsection \<open>Tool failures\<close>

text \<open>The branch for \<open>root=\<close> strings reports a result whose \<open>isError\<close> is true as a
  failure with its message, or with the default message.\<close>

lemma root_error_is_failure:
  assumes "startswith s ''root=''"
    and "extract_jsonrpc lib (PStr s) None = Inr (PDict kvs)"
    and "truthy (case dict_lookup kvs ''isError'' of None \<Rightarrow> PBool False | Some v \<Rightarrow> v)"
  shows "parse_tool_response lib (PStr s) =
     Inr (PNone, True, case dict_lookup kvs ''message'' of None \<Rightarrow> PStr ''Unknown error'' | Some m \<Rightarrow> m)"
proof -
  from assms(3) have "kvs \<noteq> []" by (auto simp: dict_lookup_def)
  with assms show ?thesis
    by (simp add: parse_tool_response_def parse_body_def root_stage_def)
qed

text \<open>
  C2. A reply that arrives as a structured object whose result has \<open>isError\<close> true is
  not reported as a failure: the branch for objects never reads \<open>isError\<close>, and the text
  of the first content item comes back with the failure flag false.
\<close>

theorem native_error_reported_as_success:
  "parse_tool_response lib native_error_reply = Inr (PStr ''boom'', False, PNone)"
  by (simp add: native_error_reply_def stage_defs)

subsection \<open>The decoder returns\<close>

text \<open>
  C4. \<open>parse_tool_response\<close> returns a triple on every input and with every library.
  The triple is what one of the stages extracted (the branch for \<open>root=\<close> strings, the
  branch for objects, the search for the labelled text field), and is
  \<open>(None, False, None)\<close> when none of them extracted anything.
\<close>

theorem parse_tool_response_never_raises:
  "\<exists>t. parse_tool_response lib response = Inr t \<and>
     (t = (PNone, False, PNone)
      \<or> (\<exists>s. response = PStr s \<and> startswith s ''root='' \<and> root_stage lib s = Inr (Some t))
      \<or> (\<exists>s. response = PStr s \<and> regex_text s = Some t)
      \<or> (py_hasattr response ''result'' \<and> object_stage response = Inr (Some t)))"
proof -
  define A where "A = (case response of
      PStr s \<Rightarrow> if startswith s ''root='' then root_stage lib s else Inr None
    | other \<Rightarrow> Inr None)"
  define B where "B = (if py_hasattr response ''result'' then object_stage response else Inr None)"
  define C where "C = (case response of
      PStr s \<Rightarrow> (case regex_text s of Some t \<Rightarrow> t | None \<Rightarrow> (PNone, False, PNone))
    | other \<Rightarrow> (PNone, False, PNone))"
  let ?good = "\<lambda>t. t = (PNone, False, PNone)
      \<or> (\<exists>s. response = PStr s \<and> startswith s ''root='' \<and> root_stage lib s = Inr (Some t))
      \<or> (\<exists>s. response = PStr s \<and> regex_text s = Some t)
      \<or> (py_hasattr response ''result'' \<and> object_stage response = Inr (Some t))"
  have last: "(case response of
        PStr s \<Rightarrow> (case regex_text s of Some t \<Rightarrow> Inr t | None \<Rightarrow> Inr (PNone, False, PNone))
      | other \<Rightarrow> Inr (PNone, False, PNone)) = (Inr C :: exn + triple)"
    unfolding C_def by (cases response) (simp_all split: option.splits)
  have body: "parse_body lib response =
      bind_exn A (\<lambda>a. case a of Some t \<Rightarrow> Inr t
        | None \<Rightarrow> bind_exn B (\<lambda>b. case b of Some t \<Rightarrow> Inr t | None \<Rightarrow> Inr C))"
    unfolding parse_body_def A_def [symmetric] B_def [symmetric] last ..
  have handler: "parse_handler response = Inr C"
    unfolding parse_handler_def last ..
  have goodC: "?good C"
    unfolding C_def by (cases response) (auto split: option.splits)
  have goodA: "?good t" if "A = Inr (Some t)" for t
    using that unfolding A_def by (cases response) (auto split: if_splits)
  have goodB: "?good t" if "B = Inr (Some t)" for t
    using that unfolding B_def by (auto split: if_splits)
  show ?thesis
  proof (cases A)
    case (Inl e)
    then have "parse_tool_response lib response = Inr C"
      by (simp add: parse_tool_response_def body handler)
    with goodC show ?thesis by blast
  next
    case a: (Inr a)
    show ?thesis
    proof (cases a)
      case (Some t)
      with a have "parse_tool_response lib response = Inr t"
        by (simp add: parse_tool_response_def body)
      moreover from a Some have "?good t" by (intro goodA) simp
      ultimately show ?thesis by blast
    next
      case None
      show ?thesis
      proof (cases B)
        case (Inl e)
        with a None have "parse_tool_response lib response = Inr C"
          by (simp add: parse_tool_response_def body handler)
        with goodC show ?thesis by blast
      next
        case b: (Inr b)
        show ?thesis
        proof (cases b)
          case (Some t)
          with a None b have "parse_tool_response lib response = Inr t"
            by (simp add: parse_tool_response_def body)
          moreover from b Some have "?good t" by (intro goodB) simp
          ultimately show ?thesis by blast
        next
          case nb: None
          with a None b have "parse_tool_response lib response = Inr C"
            by (simp add: parse_tool_response_def body)
          with goodC show ?thesis by blast
        qed
      qed
    qed
  qed
qed

theorem parse_tool_response_never_raises_witness:
  "parse_tool_response python_lib (PInt 5) = Inr (PNone, False, PNone)
   \<and> parse_tool_response python_lib (PStr ''no structure here'') = Inr (PNone, False, PNone)
   \<and> parse_tool_response python_lib (PObj ''x'' [(''result'', PObj ''y'' [(''content'', PInt 7)])])
       = Inr (PNone, False, PNone)"
proof (intro conjI)
  show "parse_tool_response python_lib (PInt 5) = Inr (PNone, False, PNone)"
    using parse_tool_response_never_raises [of python_lib "PInt 5"] by auto
  have none: "regex_text ''no structure here'' = None"
    by (simp add: regex_text_def rx_defs)
  have root: "\<not> startswith ''no structure here'' ''root=''"
    by (simp add: startswith_def)
  show "parse_tool_response python_lib (PStr ''no structure here'') = Inr (PNone, False, PNone)"
    using parse_tool_response_never_raises [of python_lib "PStr ''no structure here''"]
    by (auto simp: none root)
  have obj: "object_stage (PObj ''x'' [(''result'', PObj ''y'' [(''content'', PInt 7)])]) = Inl TypeError"
    by (simp add: stage_defs)
  show "parse_tool_response python_lib (PObj ''x'' [(''result'', PObj ''y'' [(''content'', PInt 7)])])
       = Inr (PNone, False, PNone)"
    using parse_tool_response_never_raises [of python_lib "PObj ''x'' [(''result'', PObj ''y'' [(''content'', PInt 7)])]"]
    by (auto simp: obj)
qed

subsection \<open>Inputs without a result fragment\<close>

lemma lazy_close_sound:
  "rx_match [LazyStar AnyChar, Chr CHR ''}'', GroupClose] s st = Some g
   \<Longrightarrow> \<exists>b c. s = b @ ''}'' @ c"
proof (induction s arbitrary: st)
  case Nil
  then show ?case by simp
next
  case (Cons x xs)
  show ?case
  proof (cases "x = CHR ''}''")
    case True
    then have "x # xs = [] @ ''}'' @ xs" by simp
    then show ?thesis by blast
  next
    case False
    with Cons.prems have "rx_match [LazyStar AnyChar, Chr CHR ''}'', GroupClose] xs (consume x st) = Some g"
      by (simp split: option.splits)
    from Cons.IH [OF this] obtain b c where "xs = b @ ''}'' @ c" by blast
    then have "x # xs = (x # b) @ ''}'' @ c" by simp
    then show ?thesis by blast
  qed
qed

lemma match_chr_Some:
  "rx_match (Chr c # r) s st = Some g \<longleftrightarrow> (\<exists>xs. s = c # xs \<and> rx_match r xs (consume c st) = Some g)"
  by (cases s) auto

lemma match_result_sound:
  assumes "rx_match re_result s st = Some g"
  shows "\<exists>b c. s = ''result={'' @ b @ ''}'' @ c"
proof -
  from assms obtain r where s: "s = ''result={'' @ r"
    and m: "rx_match [LazyStar AnyChar, Chr CHR ''}'', GroupClose] r (True, ''{'') = Some g"
    by (auto simp: re_result_def lit_def consume_def match_chr_Some)
  from lazy_close_sound [OF m] s show ?thesis by auto
qed

lemma search_result_sound:
  "rx_search re_result s = Some g \<Longrightarrow> \<exists>a b c. s = a @ ''result={'' @ b @ ''}'' @ c"
proof (induction s)
  case Nil
  then show ?case using match_result_sound [of "[]"] by auto
next
  case (Cons x xs)
  show ?case
  proof (cases "rx_match re_result (x # xs) (False, [])")
    case (Some g')
    from match_result_sound [OF this] obtain b c where "x # xs = [] @ ''result={'' @ b @ ''}'' @ c"
      by auto
    then show ?thesis by blast
  next
    case None
    with Cons.prems have "rx_search re_result xs = Some g" by simp
    from Cons.IH [OF this] obtain a b c where "xs = a @ ''result={'' @ b @ ''}'' @ c" by blast
    then have "x # xs = (x # a) @ ''result={'' @ b @ ''}'' @ c" by simp
    then show ?thesis by blast
  qed
qed

text \<open>
  C10. \<open>extract_jsonrpc\<close> returns \<open>None\<close>, and raises nothing, on every input that is not
  a string with the prefix \<open>root=\<close>, and on every string with this prefix that has no
  result fragment; with every field name and every library.
\<close>

theorem extract_jsonrpc_none:
  "(\<not> (\<exists>s. v = PStr s \<and> startswith s ''root='') \<longrightarrow> extract_jsonrpc lib v field_name = Inr PNone)
   \<and> (startswith s ''root='' \<and> \<not> has_result_fragment s
        \<longrightarrow> extract_jsonrpc lib (PStr s) field_name = Inr PNone)"
proof (intro conjI impI)
  assume "\<not> (\<exists>s. v = PStr s \<and> startswith s ''root='')"
  then show "extract_jsonrpc lib v field_name = Inr PNone"
    by (auto simp: extract_jsonrpc_def split: pyval.splits)
next
  assume "startswith s ''root='' \<and> \<not> has_result_fragment s"
  then have "rx_search re_result s = None"
    using search_result_sound [of s] by (cases "rx_search re_result s") (auto simp: has_result_fragment_def)
  then show "extract_jsonrpc lib (PStr s) field_name = Inr PNone"
    by (simp add: extract_jsonrpc_def)
qed

theorem extract_jsonrpc_none_witness:
  "extract_jsonrpc python_lib PNone None = Inr PNone
   \<and> extract_jsonrpc python_lib (PStr []) (Some ''tools'') = Inr PNone
   \<and> extract_jsonrpc python_lib (PInt 7) None = Inr PNone
   \<and> extract_jsonrpc python_lib (PStr ''result={}'') None = Inr PNone
   \<and> extract_jsonrpc python_lib (PObj ''root=JSONRPCResponse(result={})'' [(''result'', PDict [])]) None = Inr PNone
   \<and> extract_jsonrpc python_lib (PStr ''root=JSONRPCResponse(id='1', error=None)'') None = Inr PNone"
proof (intro conjI)
  show "extract_jsonrpc python_lib PNone None = Inr PNone"
    using extract_jsonrpc_none [of PNone python_lib None] by simp
  show "extract_jsonrpc python_lib (PStr []) (Some ''tools'') = Inr PNone"
    using extract_jsonrpc_none [of "PStr []" python_lib "Some ''tools''"] by (simp add: startswith_def)
  show "extract_jsonrpc python_lib (PInt 7) None = Inr PNone"
    using extract_jsonrpc_none [of "PInt 7" python_lib None] by simp
  show "extract_jsonrpc python_lib (PStr ''result={}'') None = Inr PNone"
    using extract_jsonrpc_none [of "PStr ''result={}''" python_lib None] by (simp add: startswith_def)
  show "extract_jsonrpc python_lib (PObj ''root=JSONRPCResponse(result={})'' [(''result'', PDict [])]) None = Inr PNone"
    using extract_jsonrpc_none [of "PObj ''root=JSONRPCResponse(result={})'' [(''result'', PDict [])]" python_lib None]
    by simp
  have nf: "\<not> has_result_fragment ''root=JSONRPCResponse(id='1', error=None)''"
  proof
    assume "has_result_fragment ''root=JSONRPCResponse(id='1', error=None)''"
    then obtain a b c where "''root=JSONRPCResponse(id='1', error=None)'' = a @ ''result={'' @ b @ ''}'' @ c"
      unfolding has_result_fragment_def by blast
    then have "set ''root=JSONRPCResponse(id='1', error=None)'' = set (a @ ''result={'' @ b @ ''}'' @ c)"
      by (rule arg_cong)
    then have "CHR ''{'' \<in> set ''root=JSONRPCResponse(id='1', error=None)''"
      by (simp only: set_append set_simps) blast
    then show False by simp
  qed
  have r: "startswith ''root=JSONRPCResponse(id='1', error=None)'' ''root=''"
    by (simp add: startswith_def)
  show "extract_jsonrpc python_lib (PStr ''root=JSONRPCResponse(id='1', error=None)'') None = Inr PNone"
    using extract_jsonrpc_none [of PNone python_lib None "''root=JSONRPCResponse(id='1', error=None)''"] nf r
    by blast
qed

subsection \<open>Exceptions on the inbound stream\<close>

lemma str_int_2: "str_int 2 = ''2''"
  by code_simp

lemma next_ids_three: "fst (next_ids 3 new_client) = [''1'', ''2'', ''3'']"
  by code_simp

text \<open>
  C5. In \<open>call_tool\<close>, an exception instance received from the inbound stream is raised
  again, whatever the library parsers would do: on the reply to the tool call of an
  initialized session, on the reply to the handshake of a session that is not
  initialized, and on the reply to the tool call after a handshake that succeeded. No
  decoding stage is applied to it: the decoding stages stand in the other branch of
  \<open>call_tool_response\<close>.
\<close>

theorem call_tool_reraises:
  "call_tool_response lib (WireExc m) = Inl (Reraised m)
   \<and> (streams c = Some (WireExc m # rest, outb) \<longrightarrow> fst (call_tool lib c) = Raises (Reraised m))
   \<and> (streams c = Some (WireObj s attrs # WireExc m # rest, outb) \<and> \<not> initialized c
        \<longrightarrow> fst (call_tool lib c) = Raises (Reraised m))"
proof (intro conjI impI)
  show r: "call_tool_response lib (WireExc m) = Inl (Reraised m)"
    by (simp add: call_tool_response_def)
  show "fst (call_tool lib c) = Raises (Reraised m)"
    if "streams c = Some (WireExc m # rest, outb)"
    using that r
    by (simp add: call_tool_def call_tool_request_def send_initialize_request_def
          get_next_request_id_def send_msg_def receive_def Let_def)
  show "fst (call_tool lib c) = Raises (Reraised m)"
    if "streams c = Some (WireObj s attrs # WireExc m # rest, outb) \<and> \<not> initialized c"
    using that r
    by (simp add: call_tool_def call_tool_request_def send_initialize_request_def
          send_initialized_notification_def get_next_request_id_def send_msg_def receive_def Let_def)
qed

theorem call_tool_reraises_witness:
  "call_tool python_lib
     \<lparr> streams = Some ([WireExc ''connection lost''], []), request_id = 1, initialized = True,
       available_tools = PList [] \<rparr>
   = (Raises (Reraised ''connection lost''),
      \<lparr> streams = Some ([], [(Some ''2'', ''tools/call'')]), request_id = 2, initialized = True,
        available_tools = PList [] \<rparr>)
   \<and> fst (call_tool python_lib
     \<lparr> streams = Some ([WireObj ''root=JSONRPCResponse(...)'' [], WireExc ''connection lost''], []),
       request_id = 0, initialized = False, available_tools = PList [] \<rparr>)
   = Raises (Reraised ''connection lost'')"
proof (intro conjI)
  let ?c = "\<lparr> streams = Some ([WireExc ''connection lost''], []), request_id = 1, initialized = True,
       available_tools = PList [] \<rparr>"
  have "fst (call_tool python_lib ?c) = Raises (Reraised ''connection lost'')"
    using call_tool_reraises [where lib = python_lib and m = "''connection lost''" and c = ?c
        and rest = "[]" and outb = "[]"]
    by simp
  moreover have "snd (call_tool python_lib ?c) =
      \<lparr> streams = Some ([], [(Some ''2'', ''tools/call'')]), request_id = 2, initialized = True,
        available_tools = PList [] \<rparr>"
    by (simp add: call_tool_def call_tool_request_def get_next_request_id_def send_msg_def receive_def
          call_tool_response_def Let_def str_int_2)
  ultimately show "call_tool python_lib ?c = (Raises (Reraised ''connection lost''),
      \<lparr> streams = Some ([], [(Some ''2'', ''tools/call'')]), request_id = 2, initialized = True,
        available_tools = PList [] \<rparr>)"
    by (simp add: prod_eq_iff)
  let ?d = "\<lparr> streams = Some ([WireObj ''root=JSONRPCResponse(...)'' [], WireExc ''connection lost''], []),
       request_id = 0, initialized = False, available_tools = PList [] \<rparr>"
  show "fst (call_tool python_lib ?d) = Raises (Reraised ''connection lost'')"
    using call_tool_reraises [where lib = python_lib and m = "''connection lost''" and c = ?d
        and s = "''root=JSONRPCResponse(...)''" and attrs = "[]" and rest = "[]" and outb = "[]"]
    by simp
qed

subsection \<open>Tool discovery\<close>

text \<open>A reply with an empty tools array leaves the empty list, whatever was there.\<close>

lemma list_tools_empty_array:
  "available_tools (snd (list_tools python_lib
      (stale_client ''root=JSONRPCResponse(jsonrpc='2.0', id=2, result={'tools': []})''))) = PList []"
  by (simp add: list_tools_def stale_client_def get_next_request_id_def send_msg_def receive_def
        Let_def extract_jsonrpc_def python_lib_def select_field_def rx_defs json_defs dict_lookup_def)

text \<open>
  C7. A reply whose result has no \<open>tools\<close> entry does not leave the empty list:
  \<open>extract_jsonrpc\<close> returns the whole result dictionary when the field is absent, the
  dictionary is true, and \<open>available_tools\<close> becomes this dictionary.
\<close>

theorem list_tools_without_tools_entry:
  "available_tools (snd (list_tools python_lib
      (stale_client ''root=JSONRPCResponse(jsonrpc='2.0', id=2, result={'nextCursor': None})'')))
   = PDict [(PStr ''nextCursor'', PNone)]"
  by (simp add: list_tools_def stale_client_def get_next_request_id_def send_msg_def receive_def
        Let_def extract_jsonrpc_def python_lib_def select_field_def rx_defs json_defs dict_lookup_def)

subsection \<open>Prefixes, replacements and quoted strings\<close>

lemma startswith_Nil [simp]: "startswith s []"
  by (simp add: startswith_def)

lemma startswith_Cons_Cons [simp]:
  "startswith (x # s) (y # p) \<longleftrightarrow> x = y \<and> startswith s p"
  by (simp add: startswith_def)

lemma startswith_Nil_Cons [simp]: "\<not> startswith [] (y # p)"
  by (simp add: startswith_def)





subsection \<open>The search for the labelled text field\<close>

lemma match_text_label: "rx_match re_text s st = Some g \<Longrightarrow> startswith s text_label"
  by (auto simp: re_text_def lit_def text_label_def match_chr_Some)

lemma startswith_append_cases:
  "startswith (a @ b) p \<Longrightarrow> startswith a p \<or> (\<exists>r. p = a @ r \<and> r \<noteq> [] \<and> startswith b r)"
proof (induction a arbitrary: p)
  case Nil
  then show ?case by (cases p) auto
next
  case (Cons x a)
  then show ?case by (cases p) auto
qed

lemma label_no_straddle:
  assumes "text_label = a @ r" and "a \<noteq> []" and "r \<noteq> []"
  shows "\<not> startswith (hello_field @ post) r"
  using assms
  by (auto simp: text_label_def hello_field_def Cons_eq_append_conv)

lemma search_text_skip_label:
  "\<not> is_substring text_label pre \<Longrightarrow>
   rx_search re_text (pre @ hello_field @ post) = rx_search re_text (hello_field @ post)"
proof (induction pre)
  case Nil
  show ?case by simp
next
  case (Cons x pre)
  then have ns: "\<not> startswith (x # pre) text_label" and np: "\<not> is_substring text_label pre"
    by auto
  have "rx_match re_text ((x # pre) @ hello_field @ post) (False, []) = None"
  proof (rule ccontr)
    assume "rx_match re_text ((x # pre) @ hello_field @ post) (False, []) \<noteq> None"
    then obtain g where "rx_match re_text ((x # pre) @ hello_field @ post) (False, []) = Some g"
      by blast
    then have "startswith ((x # pre) @ hello_field @ post) text_label"
      by (rule match_text_label)
    then obtain r where "text_label = (x # pre) @ r" "r \<noteq> []" "startswith (hello_field @ post) r"
      using startswith_append_cases ns by blast
    then show False using label_no_straddle [of "x # pre" r post] by simp
  qed
  then show ?case using Cons.IH [OF np] by simp
qed

lemma search_hello_field: "rx_search re_text (hello_field @ post) = Some ''hello world''"
  by (simp add: hello_field_def rx_defs)

text \<open>
  C9. A wire string that holds the labelled field \<^verbatim>\<open>'text': 'hello world'\<close>, with no
  labelled text field before it and no structure the decoder can parse, decodes through the
  search for the labelled text field to \<open>('hello world', False, None)\<close>: whatever
  stands before and after the field, and with every library.
\<close>

theorem regex_recovers_hello_world:
  assumes "\<not> is_substring text_label pre"
    and "undecodable lib (pre @ hello_field @ post)"
  shows "parse_tool_response lib (PStr (pre @ hello_field @ post))
     = Inr (PStr ''hello world'', False, PNone)"
proof -
  let ?s = "pre @ hello_field @ post"
  have r: "regex_text ?s = Some (PStr ''hello world'', False, PNone)"
    using search_text_skip_label [OF assms(1), of post] search_hello_field [of post]
    by (simp add: regex_text_def)
  show ?thesis
  proof (cases "startswith ?s ''root=''")
    case False
    with r show ?thesis
      by (simp add: parse_tool_response_def parse_body_def)
  next
    case True
    show ?thesis
    proof (cases "extract_jsonrpc lib (PStr ?s) None")
      case (Inl e)
      with True r show ?thesis
        by (simp add: parse_tool_response_def parse_body_def parse_handler_def root_stage_def)
    next
      case (Inr v)
      with True assms(2) have "\<not> truthy v" by (simp add: undecodable_def)
      with True Inr r show ?thesis
        by (simp add: parse_tool_response_def parse_body_def root_stage_def)
    qed
  qed
qed

theorem regex_recovers_hello_world_witness:
  "parse_tool_response python_lib (PStr ''{'type': 'text', 'text': 'hello world'}'')
     = Inr (PStr ''hello world'', False, PNone)
   \<and> parse_tool_response python_lib
       (PStr ''root=CallToolResult(content=[{'type': 'text', 'text': 'hello world'}])'')
     = Inr (PStr ''hello world'', False, PNone)"
proof (intro conjI)
  have "\<not> is_substring text_label ''{'type': 'text', ''"
    by (simp add: text_label_def)
  moreover have "undecodable python_lib (''{'type': 'text', '' @ hello_field @ ''}'')"
    by (simp add: undecodable_def hello_field_def)
  ultimately show "parse_tool_response python_lib (PStr ''{'type': 'text', 'text': 'hello world'}'')
     = Inr (PStr ''hello world'', False, PNone)"
    using regex_recovers_hello_world [of "''{'type': 'text', ''" python_lib "''}''"]
    by (simp add: hello_field_def)
  let ?pre = "''root=CallToolResult(content=[{'type': 'text', ''"
  have "\<not> is_substring text_label ?pre"
    by (simp add: text_label_def)
  moreover have "rx_search re_result (?pre @ hello_field @ ''}])'') = None"
    by (simp add: hello_field_def re_result_def lit_def)
  then have "undecodable python_lib (?pre @ hello_field @ ''}])'')"
    by (simp add: undecodable_def extract_jsonrpc_def)
  ultimately show "parse_tool_response python_lib
       (PStr ''root=CallToolResult(content=[{'type': 'text', 'text': 'hello world'}])'')
     = Inr (PStr ''hello world'', False, PNone)"
    using regex_recovers_hello_world [of ?pre python_lib "''}])''"]
    by (simp add: hello_field_def)
qed

subsection \<open>Round trips\<close>











lemma not_closes_simps [simp]:
  "\<not> closes (CHR '']'' # r)" "\<not> closes (sq # r)" "\<not> closes (dq # r)" "\<not> closes (CHR ''{'' # r)"
  by (simp_all add: closes_def error_follows_def)






































text \<open>The rendering in single quotes of the result of the scenario is the wire string of
  the scenario.\<close>

lemma render_literal_scenario: "render_literal [(''text'', ''42'')] False None = scenario_42"
  by (simp add: render_literal_def literal_result_def result_text_def item_text_def message_text_def
        quoted_def scenario_42_def)













end
